theory Spec2Isabelle
  imports Complex_Main "HOL-Library.Word"
begin

section \<open>JavaScript values\<close>

text \<open>
  The two servers of the repository (the ES-module \<^verbatim>\<open>server.js\<close> and its CommonJS
  twin) handle JSON request bodies, so the values they see are the values
  \<^verbatim>\<open>JSON.parse\<close> builds, plus \<^verbatim>\<open>undefined\<close> for what is missing.

  A Number is an IEEE 754 binary64 value: \<open>NaN\<close>, the two infinities, or a finite
  rational. The two zeros are not told apart: every test the handlers make
  (\<^verbatim>\<open>!x\<close>, \<^verbatim>\<open>x <= 0\<close>, \<^verbatim>\<open>x || d\<close>) treats them alike. A String is the list of
  its UTF-8 bytes; an object is the association list of its own properties, read with
  \<open>map_of\<close>.
\<close>

datatype jsnum = NaN | PosInf | NegInf | Fin rat

datatype js =
    JUndefined
  | JNull
  | JBool bool
  | JNum jsnum
  | JStr string
  | JArr "js list"
  | JObj "(string \<times> js) list"

text \<open>\<^verbatim>\<open>ToBoolean\<close>: the falsy values are \<^verbatim>\<open>undefined\<close>, \<^verbatim>\<open>null\<close>, \<^verbatim>\<open>false\<close>,
  \<^verbatim>\<open>0\<close>, \<^verbatim>\<open>NaN\<close> and the empty string.\<close>

fun truthy :: "js \<Rightarrow> bool" where
  "truthy JUndefined = False"
| "truthy JNull = False"
| "truthy (JBool b) = b"
| "truthy (JNum n) = (n \<noteq> NaN \<and> n \<noteq> Fin 0)"
| "truthy (JStr s) = (s \<noteq> [])"
| "truthy (JArr xs) = True"
| "truthy (JObj kvs) = True"

text \<open>\<^verbatim>\<open>a || b\<close>\<close>

definition js_or :: "js \<Rightarrow> js \<Rightarrow> js" where
  "js_or a b = (if truthy a then a else b)"

fun nullish :: "js \<Rightarrow> bool" where
  "nullish JUndefined = True"
| "nullish JNull = True"
| "nullish v = False"

text \<open>
  Reading a property of a value that is neither \<^verbatim>\<open>null\<close> nor \<^verbatim>\<open>undefined\<close>. None of
  the names the handlers read (\<^verbatim>\<open>id\<close>, \<^verbatim>\<open>event\<close>, \<^verbatim>\<open>payload\<close>, \<^verbatim>\<open>payment\<close>,
  \<^verbatim>\<open>entity\<close>, \<^verbatim>\<open>status\<close>, \<^verbatim>\<open>amount\<close>, \<^verbatim>\<open>currency\<close>, \<^verbatim>\<open>email\<close>, \<^verbatim>\<open>contact\<close>)
  is an index, \<^verbatim>\<open>length\<close> or an inherited method, so only an object has them.
\<close>

fun get_prop :: "js \<Rightarrow> string \<Rightarrow> js" where
  "get_prop (JObj kvs) k = (case map_of kvs k of Some v \<Rightarrow> v | None \<Rightarrow> JUndefined)"
| "get_prop v k = JUndefined"

text \<open>\<^verbatim>\<open>v.k\<close> throws a TypeError on \<^verbatim>\<open>null\<close> and \<^verbatim>\<open>undefined\<close> (\<open>None\<close>);
  \<^verbatim>\<open>v?.k\<close> yields \<^verbatim>\<open>undefined\<close> there.\<close>

definition member :: "js \<Rightarrow> string \<Rightarrow> js option" where
  "member v k = (if nullish v then None else Some (get_prop v k))"

definition opt_member :: "js \<Rightarrow> string \<Rightarrow> js" where
  "opt_member v k = (if nullish v then JUndefined else get_prop v k)"

section \<open>Numbers\<close>

subsection \<open>Rounding a rational to binary64\<close>

text \<open>
  \<open>fl x\<close> is the Number nearest to the rational \<open>x\<close> (ties to the even significand,
  53 significant bits, least exponent \<open>- 1074\<close>, overflow to an infinity from
  \<open>2 ^ 1024 - 2 ^ 970\<close> on): the rounding every arithmetic operation and every numeric
  literal of the language goes through.
\<close>

fun bit_length :: "nat \<Rightarrow> nat" where
  "bit_length n = (if n = 0 then 0 else Suc (bit_length (n div 2)))"

declare bit_length.simps [simp del]

definition pow2 :: "int \<Rightarrow> rat" where
  "pow2 k = (if 0 \<le> k then 2 ^ nat k else 1 / 2 ^ nat (- k))"

text \<open>\<open>floor_log2 a\<close> is the \<open>k\<close> with \<open>2 ^ k \<le> a < 2 ^ (k + 1)\<close>, for \<open>0 < a\<close>.\<close>

definition floor_log2 :: "rat \<Rightarrow> int" where
  "floor_log2 a =
     (if 1 \<le> a then int (bit_length (nat \<lfloor>a\<rfloor>)) - 1
      else - int (bit_length (nat \<lceil>1 / a\<rceil> - 1)))"

definition round_half_even :: "rat \<Rightarrow> int" where
  "round_half_even q =
     (let f = \<lfloor>q\<rfloor>; d = q - of_int f
      in if d < 1 / 2 then f
         else if 1 / 2 < d then f + 1
         else if even f then f else f + 1)"

definition fl :: "rat \<Rightarrow> jsnum" where
  "fl x =
     (if x = 0 then Fin 0
      else
        let a = \<bar>x\<bar>;
            e = max (floor_log2 a - 52) (- 1074);
            r = of_int (round_half_even (a / pow2 e)) * pow2 e
        in if 2 ^ 1024 \<le> r then (if 0 < x then PosInf else NegInf)
           else Fin (sgn x * r))"

subsection \<open>Operators\<close>

text \<open>\<^verbatim>\<open>a * b\<close> on Numbers.\<close>

fun num_mul :: "jsnum \<Rightarrow> jsnum \<Rightarrow> jsnum" where
  "num_mul (Fin a) (Fin b) = fl (a * b)"
| "num_mul NaN y = NaN"
| "num_mul x NaN = NaN"
| "num_mul (Fin a) y =
     (if a = 0 then NaN else if (0 < a) = (y = PosInf) then PosInf else NegInf)"
| "num_mul x (Fin b) =
     (if b = 0 then NaN else if (0 < b) = (x = PosInf) then PosInf else NegInf)"
| "num_mul x y = (if x = y then PosInf else NegInf)"

text \<open>\<^verbatim>\<open>x <= 0\<close> on a Number: a comparison with \<^verbatim>\<open>NaN\<close> is false.\<close>

fun num_le_zero :: "jsnum \<Rightarrow> bool" where
  "num_le_zero (Fin r) = (r \<le> 0)"
| "num_le_zero NegInf = True"
| "num_le_zero PosInf = False"
| "num_le_zero NaN = False"

text \<open>\<^verbatim>\<open>Math.round\<close>: the nearest integer, a tie going up.\<close>

fun Math_round :: "jsnum \<Rightarrow> jsnum" where
  "Math_round (Fin r) = Fin (of_int \<lfloor>r + 1 / 2\<rfloor>)"
| "Math_round n = n"

subsection \<open>\<^verbatim>\<open>StringToNumber\<close>\<close>

text \<open>
  The white space a numeric string may start and end with: the language's WhiteSpace and
  LineTerminator code points, each as the values of its UTF-8 bytes (TAB, LF, VT, FF, CR, SP, U+00A0,
  U+1680, U+2000 to U+200A, U+2028, U+2029, U+202F, U+205F, U+3000, U+FEFF).
\<close>

definition white_space :: "nat list list" where
  "white_space =
     [[0x09], [0x0A], [0x0B], [0x0C], [0x0D], [0x20], [0xC2, 0xA0], [0xE1, 0x9A, 0x80]]
     @ map (\<lambda>b. [0xE2, 0x80, b]) [0x80 ..< 0x8B]
     @ [[0xE2, 0x80, 0xA8], [0xE2, 0x80, 0xA9], [0xE2, 0x80, 0xAF], [0xE2, 0x81, 0x9F],
        [0xE3, 0x80, 0x80], [0xEF, 0xBB, 0xBF]]"

text \<open>The length of the first of the byte sequences \<open>ws\<close> that the string starts with,
  0 when it starts with none.\<close>

definition ws_len :: "nat list list \<Rightarrow> string \<Rightarrow> nat" where
  "ws_len ws s =
     (case filter (\<lambda>w. w \<noteq> [] \<and> take (length w) (map of_char s) = w) ws of
        [] \<Rightarrow> 0
      | w # _ \<Rightarrow> length w)"

function strip_start :: "nat list list \<Rightarrow> string \<Rightarrow> string" where
  "strip_start ws s = (if ws_len ws s = 0 then s else strip_start ws (drop (ws_len ws s) s))"
  by pat_completeness auto

termination strip_start
proof (relation "measure (\<lambda>(ws, s). length s)")
  show "wf (measure (\<lambda>(ws, s). length s))"
    by simp
next
  fix ws :: "nat list list" and s :: string
  assume matched: "ws_len ws s \<noteq> 0"
  have "s \<noteq> []"
  proof
    assume "s = []"
    have "filter (\<lambda>w. w \<noteq> [] \<and> take (length w) (map of_char ([] :: string)) = w) ws = []"
      by (auto simp: filter_empty_conv)
    with \<open>s = []\<close> have "ws_len ws s = 0"
      by (simp add: ws_len_def)
    with matched show False
      by simp
  qed
  with matched show "((ws, drop (ws_len ws s) s), (ws, s)) \<in> measure (\<lambda>(ws, s). length s)"
    by simp
qed

declare strip_start.simps [simp del]

definition trim :: "string \<Rightarrow> string" where
  "trim s = rev (strip_start (map rev white_space) (rev (strip_start white_space s)))"

text \<open>The value of a digit in base \<open>b\<close>; of a non-empty string of such digits.\<close>

definition digit_of :: "nat \<Rightarrow> char \<Rightarrow> nat option" where
  "digit_of b c =
     (let n = (of_char c :: nat);
          v = (if 48 \<le> n \<and> n \<le> 57 then n - 48
               else if 97 \<le> n \<and> n \<le> 102 then n - 87
               else if 65 \<le> n \<and> n \<le> 70 then n - 55
               else 16)
      in if v < b then Some v else None)"

definition is_digit :: "char \<Rightarrow> bool" where
  "is_digit c = (digit_of 10 c \<noteq> None)"

definition digits :: "nat \<Rightarrow> string \<Rightarrow> nat option" where
  "digits b s =
     (if s \<noteq> [] \<and> list_all (\<lambda>c. digit_of b c \<noteq> None) s
      then Some (foldl (\<lambda>a c. b * a + (case digit_of b c of Some v \<Rightarrow> v | None \<Rightarrow> 0)) 0 s)
      else None)"

definition pow10 :: "int \<Rightarrow> rat" where
  "pow10 k = (if 0 \<le> k then 10 ^ nat k else 1 / 10 ^ nat (- k))"

text \<open>ExponentPart, optional: \<^verbatim>\<open>e\<close> or \<^verbatim>\<open>E\<close>, an optional sign, digits.\<close>

definition exponent_part :: "string \<Rightarrow> int option" where
  "exponent_part s =
     (case s of
        [] \<Rightarrow> Some 0
      | c # t \<Rightarrow>
          if c = CHR ''e'' \<or> c = CHR ''E'' then
            (case t of
               CHR ''+'' # d \<Rightarrow> map_option int (digits 10 d)
             | CHR ''-'' # d \<Rightarrow> map_option (\<lambda>n. - int n) (digits 10 d)
             | _ \<Rightarrow> map_option int (digits 10 t))
          else None)"

text \<open>StrUnsignedDecimalLiteral but for \<^verbatim>\<open>Infinity\<close>: digits, an optional point and
  fraction (one of the two digit strings may be empty), an optional exponent.\<close>

definition unsigned_decimal :: "string \<Rightarrow> rat option" where
  "unsigned_decimal s =
     (let ip = takeWhile is_digit s;
          r = dropWhile is_digit s;
          fp = (case r of CHR ''.'' # t \<Rightarrow> takeWhile is_digit t | _ \<Rightarrow> []);
          r' = (case r of CHR ''.'' # t \<Rightarrow> dropWhile is_digit t | _ \<Rightarrow> r)
      in case (digits 10 (ip @ fp), exponent_part r') of
           (Some m, Some e) \<Rightarrow> Some (of_nat m * pow10 (e - int (length fp)))
         | _ \<Rightarrow> None)"

text \<open>\<^verbatim>\<open>0x\<close>, \<^verbatim>\<open>0o\<close>, \<^verbatim>\<open>0b\<close> literals (no sign allowed).\<close>

definition radix_prefix :: "string \<Rightarrow> (nat \<times> string) option" where
  "radix_prefix s =
     (case s of
        CHR ''0'' # c # d \<Rightarrow>
          if c = CHR ''x'' \<or> c = CHR ''X'' then Some (16, d)
          else if c = CHR ''o'' \<or> c = CHR ''O'' then Some (8, d)
          else if c = CHR ''b'' \<or> c = CHR ''B'' then Some (2, d)
          else None
      | _ \<Rightarrow> None)"

definition str_to_num :: "string \<Rightarrow> jsnum" where
  "str_to_num s =
     (let t = trim s in
      if t = [] then Fin 0
      else case radix_prefix t of
        Some (b, d) \<Rightarrow> (case digits b d of None \<Rightarrow> NaN | Some n \<Rightarrow> fl (of_nat n))
      | None \<Rightarrow>
          let neg = (take 1 t = ''-'');
              u = (if take 1 t = ''-'' \<or> take 1 t = ''+'' then drop 1 t else t)
          in if u = ''Infinity'' then (if neg then NegInf else PosInf)
             else (case unsigned_decimal u of
                     None \<Rightarrow> NaN
                   | Some r \<Rightarrow> fl (if neg then - r else r)))"

subsection \<open>\<^verbatim>\<open>ToNumber\<close>\<close>

text \<open>
  An array or object is first turned into a string: an object into \<^verbatim>\<open>[object Object]\<close>
  (not a number), an array into its elements' strings joined by commas, \<^verbatim>\<open>null\<close> and
  \<^verbatim>\<open>undefined\<close> elements giving the empty string. So the empty array is \<open>0\<close>, an array
  of two or more elements is \<^verbatim>\<open>NaN\<close> (no numeric string holds a comma), and a
  one-element array is what its element's string is: a Number prints as a string that
  reads back as itself.
\<close>

fun to_number :: "js \<Rightarrow> jsnum" where
  "to_number JUndefined = NaN"
| "to_number JNull = Fin 0"
| "to_number (JBool b) = (if b then Fin 1 else Fin 0)"
| "to_number (JNum n) = n"
| "to_number (JStr s) = str_to_num s"
| "to_number (JObj kvs) = NaN"
| "to_number (JArr []) = Fin 0"
| "to_number (JArr [x]) =
     (case x of
        JUndefined \<Rightarrow> Fin 0
      | JNull \<Rightarrow> Fin 0
      | JBool b \<Rightarrow> NaN
      | JObj kvs \<Rightarrow> NaN
      | _ \<Rightarrow> to_number x)"
| "to_number (JArr (x # y # zs)) = NaN"

text \<open>\<^verbatim>\<open>!v\<close>, \<^verbatim>\<open>isNaN(v)\<close>, \<^verbatim>\<open>v <= 0\<close> and \<^verbatim>\<open>v * 100\<close> on any value.\<close>

definition js_not :: "js \<Rightarrow> bool" where
  "js_not v = (\<not> truthy v)"

definition isNaN :: "js \<Rightarrow> bool" where
  "isNaN v = (to_number v = NaN)"

definition le_zero :: "js \<Rightarrow> bool" where
  "le_zero v = num_le_zero (to_number v)"

definition times_100 :: "js \<Rightarrow> jsnum" where
  "times_100 v = num_mul (to_number v) (Fin 100)"

section \<open>The servers' surroundings\<close>

text \<open>
  What the handlers call and do not define, taken as parameters: the keyed digest of
  Node's \<^verbatim>\<open>crypto\<close> module (\<^verbatim>\<open>createHmac("sha256", key).update(data).digest()\<close>),
  \<^verbatim>\<open>JSON.parse\<close> (\<open>None\<close>: a SyntaxError) and \<^verbatim>\<open>JSON.stringify\<close> (\<open>None\<close>: the result
  \<^verbatim>\<open>undefined\<close>), the gateway client's \<^verbatim>\<open>razorpay.orders.create\<close> (\<open>Inr\<close> the order,
  \<open>Inl\<close> the \<^verbatim>\<open>message\<close> of the error the promise is rejected with), whether the
  database rejects the insert (a lost connection, a column that refuses the value), the
  text in which the database client sends a query parameter that is neither a string nor
  \<^verbatim>\<open>null\<close> nor \<^verbatim>\<open>undefined\<close> (a Number or boolean by \<^verbatim>\<open>toString\<close>, an object by
  \<^verbatim>\<open>JSON.stringify\<close>), and the message the engine gives the TypeError of a failed
  destructuring.
\<close>

record order_options =
  options_amount :: jsnum
  options_currency :: js
  options_receipt :: string

text \<open>A row of the table \<^verbatim>\<open>payments\<close>; the columns hold the query's parameters as the
  handler passes them.\<close>

record payment =
  event_id :: js
  status :: js
  amount :: js
  currency :: js
  email :: js
  contact :: js
  created_at :: nat

type_synonym store = "payment list"

record runtime =
  hmac_sha256 :: "string \<Rightarrow> string \<Rightarrow> 8 word list"
  JSON_parse :: "string \<Rightarrow> js option"
  JSON_stringify :: "js \<Rightarrow> string option"
  orders_create :: "order_options \<Rightarrow> js + js"
  query_fails :: "store \<Rightarrow> payment \<Rightarrow> bool"
  prepare_value :: "js \<Rightarrow> string"
  type_error_message :: string

text \<open>\<^verbatim>\<open>process.env\<close>\<close>

record process_env =
  RAZORPAY_WEBHOOK_SECRET :: "string option"

text \<open>
  A request as a handler sees it: the header \<^verbatim>\<open>x-razorpay-signature\<close> and
  \<^verbatim>\<open>req.body\<close>, which is what the body parsers in front of the handler left there: the
  Buffer of the body's bytes where a raw parser has read the body, the parsed value
  where a JSON parser has.
\<close>

record 'b request =
  signature :: "string option"
  body :: 'b

datatype req_body = Buffer string | Parsed js

datatype http_body = Text string | Json js | ErrorPage

datatype response = Response nat http_body

subsection \<open>\<^verbatim>\<open>digest("hex")\<close>\<close>

definition hex_byte :: "8 word \<Rightarrow> string" where
  "hex_byte b = [''0123456789abcdef'' ! (unat b div 16), ''0123456789abcdef'' ! (unat b mod 16)]"

definition digest_hex :: "8 word list \<Rightarrow> string" where
  "digest_hex ds = concat (map hex_byte ds)"

text \<open>\<^verbatim>\<open>crypto.createHmac("sha256", key)\<close> throws a TypeError when the key is
  \<^verbatim>\<open>undefined\<close>; \<^verbatim>\<open>.update(data)\<close> throws one when the data is neither a string nor
  a Buffer.\<close>

definition createHmac :: "runtime \<Rightarrow> string option \<Rightarrow> (string \<Rightarrow> 8 word list) option" where
  "createHmac rt key = map_option (hmac_sha256 rt) key"

fun update_data :: "req_body \<Rightarrow> string option" where
  "update_data (Buffer b) = Some b"
| "update_data (Parsed (JStr s)) = Some s"
| "update_data (Parsed v) = None"

text \<open>\<^verbatim>\<open>req.body.toString()\<close>. The handler reaches it only where \<^verbatim>\<open>update\<close> has
  accepted \<^verbatim>\<open>req.body\<close>, a Buffer or a string.\<close>

fun to_string :: "req_body \<Rightarrow> string" where
  "to_string (Buffer b) = b"
| "to_string (Parsed (JStr s)) = s"
| "to_string (Parsed v) = ''[object Object]''"

text \<open>A header or environment variable under \<^verbatim>\<open>!\<close>.\<close>

fun of_string_option :: "string option \<Rightarrow> js" where
  "of_string_option None = JUndefined"
| "of_string_option (Some s) = JStr s"

subsection \<open>The table \<^verbatim>\<open>payments\<close>\<close>

text \<open>
  \<^verbatim>\<open>INSERT INTO payments (event_id, status, amount, currency, email, contact, created_at)
  VALUES ($1, $2, $3, $4, $5, $6, NOW()) ON CONFLICT (event_id) DO NOTHING\<close>:
  the row is added unless a row with its \<^verbatim>\<open>event_id\<close> is there. The database
  compares the ids as the client has sent them: \<^verbatim>\<open>null\<close> and \<^verbatim>\<open>undefined\<close> as SQL
  NULL, which conflicts with nothing, a string as it is, any other value as the text the
  client makes of it (so that the Number 123 and the string \<^verbatim>\<open>"123"\<close> are one id).
\<close>

definition sql_param :: "runtime \<Rightarrow> js \<Rightarrow> string option" where
  "sql_param rt v =
     (case v of
        JUndefined \<Rightarrow> None
      | JNull \<Rightarrow> None
      | JStr s \<Rightarrow> Some s
      | _ \<Rightarrow> Some (prepare_value rt v))"

definition conflict :: "runtime \<Rightarrow> store \<Rightarrow> payment \<Rightarrow> bool" where
  "conflict rt db p =
     (case sql_param rt (event_id p) of
        None \<Rightarrow> False
      | Some k \<Rightarrow> Some k \<in> set (map (\<lambda>q. sql_param rt (event_id q)) db))"

definition pool_query :: "runtime \<Rightarrow> store \<Rightarrow> payment \<Rightarrow> unit + store" where
  "pool_query rt db p =
     (if query_fails rt db p then Inl ()
      else if conflict rt db p then Inr db
      else Inr (db @ [p]))"

subsection \<open>The JSON body parser\<close>

text \<open>
  \<^verbatim>\<open>bodyParser.json()\<close>, which \<^verbatim>\<open>express.json()\<close> is another name of. For a request of
  content type \<^verbatim>\<open>application/json\<close> it leaves \<^verbatim>\<open>{}\<close> in \<^verbatim>\<open>req.body\<close> when the body is
  empty; otherwise the body must start (after blanks) with \<^verbatim>\<open>{\<close> or \<^verbatim>\<open>[\<close> and parse,
  and \<^verbatim>\<open>req.body\<close> is the parsed value; a body that does not is answered with the
  parser's error, status 400, and no handler is entered.
\<close>

definition json_strict :: "string \<Rightarrow> bool" where
  "json_strict raw =
     (case dropWhile (\<lambda>c. of_char c \<in> set [0x20, 0x09, 0x0A, 0x0D :: nat]) raw of
        [] \<Rightarrow> False
      | c # cs \<Rightarrow> c = CHR ''{'' \<or> c = CHR ''['')"

definition body_parser_json :: "runtime \<Rightarrow> string \<Rightarrow> js option" where
  "body_parser_json rt raw =
     (if raw = [] then Some (JObj [])
      else if json_strict raw then JSON_parse rt raw
      else None)"

section \<open>The CommonJS server\<close>

subsection \<open>\<^verbatim>\<open>POST /create-order\<close>\<close>

fun show_nat :: "nat \<Rightarrow> string" where
  "show_nat n =
     (if n < 10 then [char_of (48 + n)] else show_nat (n div 10) @ [char_of (48 + n mod 10)])"

declare show_nat.simps [simp del]

text \<open>\<^verbatim>\<open>`receipt_${Date.now()}`\<close>\<close>

definition receipt :: "nat \<Rightarrow> string" where
  "receipt now = ''receipt_'' @ show_nat now"

text \<open>\<^verbatim>\<open>currency = "INR"\<close> in the destructuring pattern: the default stands in for
  \<^verbatim>\<open>undefined\<close> only.\<close>

definition default_to :: "js \<Rightarrow> js \<Rightarrow> js" where
  "default_to d v = (if v = JUndefined then d else v)"

definition invalid_amount :: response where
  "invalid_amount =
     Response 400 (Json (JObj [(''success'', JBool False), (''error'', JStr ''Invalid amount'')]))"

definition order_failed :: "js \<Rightarrow> response" where
  "order_failed message =
     Response 500 (Json (JObj [(''success'', JBool False), (''error'', message)]))"

definition order_created :: "js \<Rightarrow> response" where
  "order_created order =
     Response 200 (Json (JObj [(''success'', JBool True), (''order'', order)]))"

text \<open>The handler's result is its response and the calls it made to the gateway.\<close>

definition create_order_cjs ::
  "runtime \<Rightarrow> nat \<Rightarrow> js \<Rightarrow> response \<times> order_options list" where
  "create_order_cjs rt now req_body =
     (if nullish req_body then (order_failed (JStr (type_error_message rt)), [])
      else
        let amount = get_prop req_body ''amount'';
            currency = default_to (JStr ''INR'') (get_prop req_body ''currency'')
        in if js_not amount \<or> isNaN amount \<or> le_zero amount then (invalid_amount, [])
           else
             let options = \<lparr>options_amount = Math_round (times_100 amount),
                            options_currency = currency,
                            options_receipt = receipt now\<rparr>
             in case orders_create rt options of
                  Inr order \<Rightarrow> (order_created order, [options])
                | Inl message \<Rightarrow> (order_failed message, [options]))"

subsection \<open>\<^verbatim>\<open>POST /webhook\<close>\<close>

definition webhook_error :: response where
  "webhook_error = Response 500 (Text ''Webhook error'')"

definition webhook_ok :: response where
  "webhook_ok = Response 200 (Json (JObj [(''status'', JStr ''ok'')]))"

text \<open>The row the CommonJS handler builds from the parsed event and its payment
  entity (\<^verbatim>\<open>event.payload?.payment?.entity || null\<close>).\<close>

definition payment_row_cjs :: "js \<Rightarrow> js \<Rightarrow> nat \<Rightarrow> payment" where
  "payment_row_cjs event paymentEntity now =
     \<lparr>event_id = get_prop event ''id'',
      status = js_or (js_or (opt_member paymentEntity ''status'') (get_prop event ''event''))
                 (JStr ''unknown''),
      amount = js_or (opt_member paymentEntity ''amount'') (JNum (Fin 0)),
      currency = js_or (opt_member paymentEntity ''currency'') (JStr ''INR''),
      email = js_or (opt_member paymentEntity ''email'') JNull,
      contact = js_or (opt_member paymentEntity ''contact'') JNull,
      created_at = now\<rparr>"

definition webhook_cjs ::
  "runtime \<Rightarrow> process_env \<Rightarrow> nat \<Rightarrow> req_body request \<Rightarrow> store \<Rightarrow> response \<times> store" where
  "webhook_cjs rt env now req db =
     (let webhookSecret = RAZORPAY_WEBHOOK_SECRET env
      in if js_not (of_string_option (signature req)) \<or> js_not (of_string_option webhookSecret)
         then (Response 400 (Text ''Missing signature or webhook secret''), db)
         else
           case (createHmac rt webhookSecret, update_data (body req)) of
             (Some hmac, Some data) \<Rightarrow>
               let expected = digest_hex (hmac data)
               in if signature req \<noteq> Some expected
                  then (Response 400 (Text ''Invalid signature''), db)
                  else
                    (case JSON_parse rt (to_string (body req)) of
                       None \<Rightarrow> (webhook_error, db)
                     | Some event \<Rightarrow>
                         (case member event ''payload'' of
                            None \<Rightarrow> (webhook_error, db)
                          | Some payload \<Rightarrow>
                              let paymentEntity =
                                    js_or (opt_member (opt_member payload ''payment'') ''entity'') JNull
                              in (case pool_query rt db (payment_row_cjs event paymentEntity now) of
                                    Inl e \<Rightarrow> (webhook_error, db)
                                  | Inr db' \<Rightarrow> (webhook_ok, db'))))
           | _ \<Rightarrow> (webhook_error, db))"

text \<open>
  In front of the handler stand two body parsers: \<^verbatim>\<open>app.use(express.json())\<close>, mounted
  for every route, and after it the route's own
  \<^verbatim>\<open>bodyParser.raw({ type: "application/json" })\<close>, which according to the file's header
  comment is there so that the digest is taken of the exact raw body bytes. For a request
  of content type \<^verbatim>\<open>application/json\<close> the first parser reads the body and leaves the
  parsed value in \<^verbatim>\<open>req.body\<close>, or answers 400 when the body does not parse. The second
  parser finds the body read already and passes the request on as it is. So the handler
  is entered with the parsed value as \<^verbatim>\<open>req.body\<close>, never with the Buffer.
\<close>

definition route_webhook_cjs ::
  "runtime \<Rightarrow> process_env \<Rightarrow> nat \<Rightarrow> string option \<Rightarrow> string \<Rightarrow> store \<Rightarrow> response \<times> store" where
  "route_webhook_cjs rt env now sig raw db =
     (case body_parser_json rt raw of
        None \<Rightarrow> (Response 400 ErrorPage, db)
      | Some v \<Rightarrow> webhook_cjs rt env now \<lparr>signature = sig, body = Parsed v\<rparr> db)"

section \<open>The ES-module server\<close>

subsection \<open>\<^verbatim>\<open>POST /create-order\<close>\<close>

definition create_order_esm ::
  "runtime \<Rightarrow> nat \<Rightarrow> js \<Rightarrow> response \<times> order_options list" where
  "create_order_esm rt now req_body =
     (if nullish req_body then (order_failed (JStr (type_error_message rt)), [])
      else
        let amount = get_prop req_body ''amount'';
            currency = default_to (JStr ''INR'') (get_prop req_body ''currency'')
        in if js_not amount \<or> le_zero amount then (invalid_amount, [])
           else
             let options = \<lparr>options_amount = times_100 amount,
                            options_currency = currency,
                            options_receipt = receipt now\<rparr>
             in case orders_create rt options of
                  Inr order \<Rightarrow> (order_created order, [options])
                | Inl message \<Rightarrow> (order_failed message, [options]))"

subsection \<open>\<^verbatim>\<open>POST /webhook\<close>\<close>

definition payment_row_esm :: "js \<Rightarrow> js \<Rightarrow> nat \<Rightarrow> payment" where
  "payment_row_esm event paymentEntity now =
     \<lparr>event_id = get_prop event ''id'',
      status = js_or (opt_member paymentEntity ''status'') (JStr ''created''),
      amount = js_or (opt_member paymentEntity ''amount'') (JNum (Fin 0)),
      currency = js_or (opt_member paymentEntity ''currency'') (JStr ''INR''),
      email = js_or (opt_member paymentEntity ''email'') JNull,
      contact = js_or (opt_member paymentEntity ''contact'') JNull,
      created_at = now\<rparr>"

text \<open>Here \<^verbatim>\<open>req.body\<close> is the value the application-wide \<^verbatim>\<open>bodyParser.json()\<close>
  parsed from the request.\<close>

definition webhook_esm ::
  "runtime \<Rightarrow> process_env \<Rightarrow> nat \<Rightarrow> js request \<Rightarrow> store \<Rightarrow> response \<times> store" where
  "webhook_esm rt env now req db =
     (let secret = RAZORPAY_WEBHOOK_SECRET env;
          body_text = JSON_stringify rt (body req)
      in case (createHmac rt secret, body_text) of
           (Some hmac, Some data) \<Rightarrow>
             let expectedSignature = digest_hex (hmac data)
             in if signature req \<noteq> Some expectedSignature
                then (Response 400 (Text ''Invalid signature''), db)
                else
                  let event = body req
                  in (case member event ''payload'' of
                        None \<Rightarrow> (webhook_error, db)
                      | Some payload \<Rightarrow>
                          let paymentEntity = opt_member (opt_member payload ''payment'') ''entity''
                          in (case pool_query rt db (payment_row_esm event paymentEntity now) of
                                Inl e \<Rightarrow> (webhook_error, db)
                              | Inr db' \<Rightarrow> (webhook_ok, db')))
         | _ \<Rightarrow> (webhook_error, db))"

text \<open>In front of every handler of this server stands \<^verbatim>\<open>app.use(bodyParser.json())\<close>.\<close>

definition route_webhook_esm ::
  "runtime \<Rightarrow> process_env \<Rightarrow> nat \<Rightarrow> string option \<Rightarrow> string \<Rightarrow> store \<Rightarrow> response \<times> store" where
  "route_webhook_esm rt env now sig raw db =
     (case body_parser_json rt raw of
        None \<Rightarrow> (Response 400 ErrorPage, db)
      | Some v \<Rightarrow> webhook_esm rt env now \<lparr>signature = sig, body = v\<rparr> db)"

section \<open>Notions the properties are stated with\<close>

fun status_code :: "response \<Rightarrow> nat" where
  "status_code (Response n b) = n"

text \<open>A Number greater than zero.\<close>

fun positive :: "jsnum \<Rightarrow> bool" where
  "positive (Fin r) = (0 < r)"
| "positive PosInf = True"
| "positive n = False"

text \<open>A delivery the ES-module handler verifies: the secret and the signature are
  there, and the signature is the hex digest of \<^verbatim>\<open>JSON.stringify(req.body)\<close>, where
  \<^verbatim>\<open>req.body\<close> is the parsed event, other than \<^verbatim>\<open>null\<close>. The result is that event.\<close>

definition verified_event_esm :: "runtime \<Rightarrow> process_env \<Rightarrow> js request \<Rightarrow> js option" where
  "verified_event_esm rt env req =
     (case (RAZORPAY_WEBHOOK_SECRET env, signature req, JSON_stringify rt (body req)) of
        (Some k, Some s, Some data) \<Rightarrow>
          if s = digest_hex (hmac_sha256 rt k data) \<and> \<not> nullish (body req)
          then Some (body req)
          else None
      | _ \<Rightarrow> None)"

text \<open>The payment entity the handlers read from an event:
  \<^verbatim>\<open>event.payload?.payment?.entity\<close>, for an event other than \<^verbatim>\<open>null\<close>.\<close>

definition payment_entity :: "js \<Rightarrow> js" where
  "payment_entity event =
     opt_member (opt_member (get_prop event ''payload'') ''payment'') ''entity''"

text \<open>The row of fallback values: keyed on the event's top-level id, the status from the
  event field or \<^verbatim>\<open>"unknown"\<close>, amount 0, currency \<^verbatim>\<open>"INR"\<close>, email and contact null.\<close>

definition fallback_row :: "js \<Rightarrow> nat \<Rightarrow> payment" where
  "fallback_row event now =
     \<lparr>event_id = get_prop event ''id'',
      status = js_or (get_prop event ''event'') (JStr ''unknown''),
      amount = JNum (Fin 0),
      currency = JStr ''INR'',
      email = JNull,
      contact = JNull,
      created_at = now\<rparr>"

text \<open>The gateway delivering requests one after the other, each at its time.\<close>

fun deliver ::
  "(nat \<Rightarrow> 'r \<Rightarrow> store \<Rightarrow> response \<times> store) \<Rightarrow> (nat \<times> 'r) list \<Rightarrow> store \<Rightarrow> response list \<times> store" where
  "deliver h [] db = ([], db)"
| "deliver h ((t, rq) # ds) db =
     (case h t rq db of
        (r, db') \<Rightarrow> (case deliver h ds db' of (rs, db'') \<Rightarrow> (r # rs, db'')))"

text \<open>The number of rows stored under an id, the id as the client sends it.\<close>

definition rows_for :: "runtime \<Rightarrow> store \<Rightarrow> string \<Rightarrow> nat" where
  "rows_for rt db k = length (filter (\<lambda>p. sql_param rt (event_id p) = Some k) db)"

text \<open>Modelled from the spec: the declaration of the table \<^verbatim>\<open>payments\<close>, which is not
  among the sources. Its schema is given as \<^verbatim>\<open>payments(event_id UNIQUE, ...)\<close>, the
  constraint that the statement's \<^verbatim>\<open>ON CONFLICT (event_id)\<close> names: no two rows have the
  same \<^verbatim>\<open>event_id\<close>, NULL apart.\<close>

definition unique_ids :: "runtime \<Rightarrow> store \<Rightarrow> bool" where
  "unique_ids rt db =
     distinct (filter (\<lambda>k. k \<noteq> None) (map (\<lambda>p. sql_param rt (event_id p)) db))"

section \<open>A runtime to evaluate the handlers on\<close>

text \<open>
  Five request bodies, what \<^verbatim>\<open>JSON.parse\<close> and \<^verbatim>\<open>JSON.stringify\<close> make of them, and
  their HMAC-SHA256 digests under the secret \<^verbatim>\<open>whsec_test\<close>: the runtime's functions
  restricted to the inputs the evaluations below need. Every id in them is a string, so
  that the database client's text for other values is never asked for.
\<close>

definition body_captured :: string where
  \<open>body_captured =
     ''{"id":"evt_1","payload":{"payment":{"entity":{"status":"captured","amount":50000,"currency":"INR","email":"a@b.com","contact":"+911234567890"}}}}''\<close>

definition event_captured :: js where
  "event_captured =
     JObj [(''id'', JStr ''evt_1''),
           (''payload'', JObj [(''payment'', JObj [(''entity'',
              JObj [(''status'', JStr ''captured''), (''amount'', JNum (Fin 50000)),
                    (''currency'', JStr ''INR''), (''email'', JStr ''a@b.com''),
                    (''contact'', JStr ''+911234567890'')])])])]"

definition body_spaced :: string where
  \<open>body_spaced = ''{"id": "evt_2"}''\<close>

definition body_compact :: string where
  \<open>body_compact = ''{"id":"evt_2"}''\<close>

definition event_id_only :: js where
  "event_id_only = JObj [(''id'', JStr ''evt_2'')]"

definition body_event_only :: string where
  \<open>body_event_only = ''{"id":"evt_3","event":"payment.captured"}''\<close>

definition event_event_only :: js where
  "event_event_only = JObj [(''id'', JStr ''evt_3''), (''event'', JStr ''payment.captured'')]"

definition body_malformed :: string where
  \<open>body_malformed = ''{"id":''\<close>

definition demo_secret :: string where
  "demo_secret = ''whsec_test''"

definition demo_digests :: "(string \<times> 8 word list) list" where
  "demo_digests =
     [(body_captured,
       [0xa6, 0xec, 0xfa, 0xda, 0xc9, 0x66, 0xcf, 0xf1, 0xb8, 0x4b, 0xe4, 0x43, 0xd6, 0xbe, 0x36, 0x93,
        0xf4, 0x88, 0x41, 0x42, 0x35, 0x23, 0x1a, 0xf6, 0xab, 0xb5, 0xcf, 0x15, 0x33, 0xf8, 0xdf, 0x35]),
      (body_spaced,
       [0x99, 0x97, 0x22, 0x93, 0xfb, 0x04, 0xbf, 0x9a, 0xd4, 0x6d, 0x45, 0x5d, 0xe4, 0xb2, 0x68, 0xb3,
        0x98, 0x7b, 0xb7, 0x83, 0xa8, 0x5d, 0x97, 0x2c, 0x32, 0x5c, 0x41, 0x11, 0xdd, 0xa5, 0x3b, 0x5a]),
      (body_compact,
       [0xbd, 0x07, 0xd7, 0x48, 0x27, 0x53, 0x89, 0x76, 0xf5, 0x4e, 0x8b, 0xcc, 0xfb, 0x02, 0x85, 0xfe,
        0xe0, 0x79, 0x14, 0xd6, 0x28, 0x3b, 0x2a, 0xc3, 0x07, 0x43, 0xd3, 0x0e, 0x1f, 0x02, 0x54, 0xe7]),
      (body_event_only,
       [0x2a, 0x33, 0x96, 0xd0, 0xa1, 0x7b, 0x47, 0xa1, 0x05, 0x38, 0x41, 0xfd, 0xf6, 0xb9, 0x61, 0x94,
        0xd8, 0xb6, 0x99, 0xeb, 0x34, 0x6e, 0xae, 0xb1, 0x5a, 0xfd, 0x8f, 0x0b, 0x29, 0x33, 0x48, 0xec]),
      (body_malformed,
       [0xc2, 0xb1, 0x9a, 0x94, 0xe0, 0x5b, 0x6c, 0x59, 0xd1, 0x48, 0xc6, 0x11, 0x2f, 0x77, 0x2b, 0x9b,
        0x1d, 0x47, 0xf4, 0xa4, 0x72, 0x49, 0x8b, 0x8b, 0xcc, 0xd2, 0x7b, 0xf9, 0xb9, 0xa0, 0x73, 0x8d])]"

definition demo_parses :: "(string \<times> js) list" where
  "demo_parses =
     [(body_captured, event_captured), (body_spaced, event_id_only),
      (body_compact, event_id_only), (body_event_only, event_event_only)]"

definition demo_texts :: "(js \<times> string) list" where
  "demo_texts =
     [(event_captured, body_captured), (event_id_only, body_compact),
      (event_event_only, body_event_only)]"

definition demo_rt :: runtime where
  "demo_rt =
     \<lparr>hmac_sha256 = (\<lambda>key data.
        if key = demo_secret then (case map_of demo_digests data of Some d \<Rightarrow> d | None \<Rightarrow> [])
        else []),
      JSON_parse = map_of demo_parses,
      JSON_stringify = map_of demo_texts,
      orders_create = (\<lambda>options. Inr (JObj [(''id'', JStr ''order_1'')])),
      query_fails = (\<lambda>db p. False),
      prepare_value = (\<lambda>v. []),
      type_error_message = ''Cannot destructure property amount of req.body as it is undefined.''\<rparr>"

definition demo_env :: process_env where
  "demo_env = \<lparr>RAZORPAY_WEBHOOK_SECRET = Some demo_secret\<rparr>"

section \<open>Evaluating numbers\<close>

lemma floor_rat_numeral: "\<lfloor>(numeral a :: rat) / numeral b\<rfloor> = numeral a div numeral b"
  using floor_divide_of_int_eq [of "numeral a" "numeral b", where ?'a = rat] by simp

lemma ceiling_rat_numeral: "\<lceil>(numeral a :: rat) / numeral b\<rceil> = - (- numeral a div numeral b)"
  using ceiling_divide_eq_div [of "numeral a" "numeral b", where ?'a = rat] by simp

lemma bit_length_0: "bit_length 0 = 0"
  by (subst bit_length.simps) simp

lemma bit_length_pos: "0 < n \<Longrightarrow> bit_length n = Suc (bit_length (n div 2))"
  by (subst bit_length.simps) simp

lemmas fl_eval = fl_def floor_log2_def bit_length_0 bit_length_pos round_half_even_def pow2_def
  Let_def floor_rat_numeral ceiling_rat_numeral

lemma fl_100: "fl 100 = Fin 100"
  by (simp add: fl_eval)

lemma fl_10000: "fl 10000 = Fin 10000"
  by (simp add: fl_eval)

lemma fl_25_2: "fl (25 / 2) = Fin (25 / 2)"
  by (simp add: fl_eval)

lemma ws_len_Nil: "ws_len ws [] = 0"
proof -
  have "filter (\<lambda>w. w \<noteq> [] \<and> take (length w) (map of_char ([] :: string)) = w) ws = []"
    by (auto simp: filter_empty_conv)
  then show ?thesis
    by (simp add: ws_len_def)
qed

lemma strip_start_stop: "ws_len ws s = 0 \<Longrightarrow> strip_start ws s = s"
  by (subst strip_start.simps) simp

lemma trim_plain:
  "ws_len white_space s = 0 \<Longrightarrow> ws_len (map rev white_space) (rev s) = 0 \<Longrightarrow> trim s = s"
  by (simp add: trim_def strip_start_stop)

lemmas ws_eval = ws_len_def white_space_def upt_rec

lemmas str_eval = str_to_num_def radix_prefix_def unsigned_decimal_def is_digit_def digit_of_def
  digits_def exponent_part_def pow10_def Let_def

lemma str_to_num_empty: "str_to_num [] = Fin 0"
  by (simp add: str_to_num_def trim_plain ws_len_Nil)

lemma str_to_num_abc: "str_to_num ''abc'' = NaN"
proof -
  have "trim ''abc'' = ''abc''"
    by (rule trim_plain) (simp_all add: ws_eval)
  then show ?thesis
    by (simp add: str_eval)
qed

lemma str_to_num_100: "str_to_num ''100'' = Fin 100"
proof -
  have "trim ''100'' = ''100''"
    by (rule trim_plain) (simp_all add: ws_eval)
  then show ?thesis
    by (simp add: str_eval fl_100)
qed

text \<open>\<^verbatim>\<open>Math.round\<close> of a finite Number is an integer at most one half away from it.\<close>

lemma Math_round_integer:
  "\<exists>k :: int. Math_round (Fin r) = Fin (of_int k) \<and> \<bar>of_int k - r\<bar> \<le> 1 / 2"
proof -
  have "of_int \<lfloor>r + 1 / 2\<rfloor> \<le> r + 1 / 2" and "r + 1 / 2 < of_int \<lfloor>r + 1 / 2\<rfloor> + 1"
    by linarith+
  then have "\<bar>of_int \<lfloor>r + 1 / 2\<rfloor> - r\<bar> \<le> 1 / 2"
    by linarith
  then show ?thesis
    by auto
qed

section \<open>Order creation\<close>

lemma js_not_to_number: "js_not v \<Longrightarrow> to_number v = NaN \<or> to_number v = Fin 0"
  by (cases v) (auto simp: js_not_def str_to_num_empty)

text \<open>The CommonJS test \<^verbatim>\<open>!amount || isNaN(amount) || amount <= 0\<close> refuses exactly the
  values that are not, as Numbers, greater than zero.\<close>

lemma rejected_iff_not_positive:
  "(js_not v \<or> isNaN v \<or> le_zero v) = (\<not> positive (to_number v))"
proof (cases "to_number v")
  case NaN
  then show ?thesis by (simp add: isNaN_def)
next
  case PosInf
  then show ?thesis using js_not_to_number [of v] by (auto simp: isNaN_def le_zero_def)
next
  case NegInf
  then show ?thesis by (simp add: isNaN_def le_zero_def)
next
  case (Fin r)
  then show ?thesis using js_not_to_number [of v] by (auto simp: isNaN_def le_zero_def)
qed

lemma create_order_cjs_invalid_iff:
  assumes "\<not> nullish b"
  shows "(create_order_cjs rt now b = (invalid_amount, []))
           = (\<not> positive (to_number (get_prop b ''amount'')))"
  using assms unfolding create_order_cjs_def Let_def
  by (auto simp: rejected_iff_not_positive invalid_amount_def order_created_def order_failed_def
      split: sum.splits)

lemma create_order_cjs_valid:
  assumes "\<not> nullish b" and "positive (to_number (get_prop b ''amount''))"
  shows "create_order_cjs rt now b =
           (let options = \<lparr>options_amount = Math_round (times_100 (get_prop b ''amount'')),
                           options_currency = default_to (JStr ''INR'') (get_prop b ''currency''),
                           options_receipt = receipt now\<rparr>
            in case orders_create rt options of
                 Inr order \<Rightarrow> (order_created order, [options])
               | Inl message \<Rightarrow> (order_failed message, [options]))"
  using assms unfolding create_order_cjs_def Let_def
  by (simp add: rejected_iff_not_positive)

text \<open>The spec's examples on the CommonJS handler: 0, -5, \<^verbatim>\<open>"abc"\<close> and a missing amount
  are refused and no call is made; 100 without a currency is a call with 10000 and
  \<^verbatim>\<open>"INR"\<close>; 0.125 is a call with 13.\<close>

lemma create_order_cjs_examples:
  "create_order_cjs rt now (JObj [(''amount'', JNum (Fin 0))]) = (invalid_amount, [])"
  "create_order_cjs rt now (JObj [(''amount'', JNum (Fin (- 5)))]) = (invalid_amount, [])"
  "create_order_cjs rt now (JObj [(''amount'', JStr ''abc'')]) = (invalid_amount, [])"
  "create_order_cjs rt now (JObj []) = (invalid_amount, [])"
  "snd (create_order_cjs rt now (JObj [(''amount'', JNum (Fin 100))])) =
     [\<lparr>options_amount = Fin 10000, options_currency = JStr ''INR'',
       options_receipt = receipt now\<rparr>]"
  "snd (create_order_cjs rt now (JObj [(''amount'', JNum (Fin (1 / 8)))])) =
     [\<lparr>options_amount = Fin 13, options_currency = JStr ''INR'',
       options_receipt = receipt now\<rparr>]"
  by (simp_all add: create_order_cjs_invalid_iff create_order_cjs_valid str_to_num_abc
      times_100_def fl_10000 fl_25_2 floor_rat_numeral default_to_def Let_def
      split: sum.splits)

text \<open>
  C5 (for every create-order request, the operation fails with InvalidAmount iff the
  amount is missing, non-numeric or not strictly positive; 0, -5 and \<^verbatim>\<open>"abc"\<close> all fail,
  and no gateway call is made on failure). The CommonJS handler does so
  (\<open>create_order_cjs_invalid_iff\<close>, \<open>create_order_cjs_examples\<close>). The ES-module handler
  has no \<^verbatim>\<open>isNaN\<close> test: for the amount \<^verbatim>\<open>"abc"\<close> neither \<^verbatim>\<open>!amount\<close> nor
  \<^verbatim>\<open>amount <= 0\<close> holds, so the request is not refused and the gateway is called with
  the amount \<^verbatim>\<open>NaN\<close>.
\<close>

theorem create_order_esm_non_numeric:
  "fst (create_order_esm rt now (JObj [(''amount'', JStr ''abc'')])) \<noteq> invalid_amount
   \<and> snd (create_order_esm rt now (JObj [(''amount'', JStr ''abc'')])) =
       [\<lparr>options_amount = NaN, options_currency = JStr ''INR'', options_receipt = receipt now\<rparr>]"
  by (simp add: create_order_esm_def Let_def js_not_def le_zero_def times_100_def default_to_def
      str_to_num_abc invalid_amount_def order_created_def order_failed_def split: sum.splits)

text \<open>
  C6 (for every valid amount the gateway is called with the amount times 100, rounded to
  the nearest integer, and with the currency \<^verbatim>\<open>"INR"\<close> when none is given; 100 gives
  10000 and \<^verbatim>\<open>"INR"\<close>). The CommonJS handler does so (\<open>create_order_cjs_valid\<close>,
  \<open>Math_round_integer\<close>, \<open>create_order_cjs_examples\<close>). The ES-module handler passes
  \<^verbatim>\<open>amount * 100\<close> on as it is: for the amount 0.125 the gateway is called with 12.5.
\<close>

theorem create_order_esm_not_rounded:
  "snd (create_order_esm rt now (JObj [(''amount'', JNum (Fin (1 / 8)))])) =
     [\<lparr>options_amount = Fin (25 / 2), options_currency = JStr ''INR'',
       options_receipt = receipt now\<rparr>]"
  by (simp add: create_order_esm_def Let_def js_not_def le_zero_def times_100_def default_to_def
      fl_25_2 split: sum.splits)

text \<open>
  C9 (the CommonJS validation accepts numeric strings: for an amount such as \<^verbatim>\<open>"100"\<close>
  the InvalidAmount branch is not taken and the gateway is called with the coerced
  amount 10000). For every body whose amount is a string that reads as a Number greater
  than zero, the handler calls the gateway with that Number times 100, rounded.
\<close>

theorem create_order_cjs_numeric_string:
  assumes "\<not> nullish b" and "get_prop b ''amount'' = JStr s" and "positive (str_to_num s)"
  shows "create_order_cjs rt now b =
           (let options = \<lparr>options_amount = Math_round (num_mul (str_to_num s) (Fin 100)),
                           options_currency = default_to (JStr ''INR'') (get_prop b ''currency''),
                           options_receipt = receipt now\<rparr>
            in case orders_create rt options of
                 Inr order \<Rightarrow> (order_created order, [options])
               | Inl message \<Rightarrow> (order_failed message, [options]))"
  using assms by (simp add: create_order_cjs_valid times_100_def)

theorem create_order_cjs_numeric_string_witness:
  "positive (str_to_num ''100'')
   \<and> create_order_cjs demo_rt 0 (JObj [(''amount'', JStr ''100'')]) =
       (Response 200 (Json (JObj [(''success'', JBool True),
                                  (''order'', JObj [(''id'', JStr ''order_1'')])])),
        [\<lparr>options_amount = Fin 10000, options_currency = JStr ''INR'',
          options_receipt = receipt 0\<rparr>])"
  using create_order_cjs_numeric_string
          [of "JObj [(''amount'', JStr ''100'')]" "''100''" demo_rt 0]
  by (simp add: str_to_num_100 fl_10000 floor_rat_numeral default_to_def demo_rt_def
      order_created_def)

section \<open>The webhook: how the handlers run\<close>

lemma hex_byte_nonempty: "hex_byte b \<noteq> []"
  by (simp add: hex_byte_def)

lemma digest_hex_nonempty: "ds \<noteq> [] \<Longrightarrow> digest_hex ds \<noteq> []"
  by (cases ds) (simp_all add: digest_hex_def hex_byte_nonempty)

lemma js_not_of_string_option: "js_not (of_string_option x) = (x = None \<or> x = Some [])"
  by (cases x) (simp_all add: js_not_def)

subsection \<open>The CommonJS handler\<close>

text \<open>Secret or signature missing (or empty): 400, and nothing else happens.\<close>

lemma webhook_cjs_missing:
  assumes "RAZORPAY_WEBHOOK_SECRET env = None \<or> RAZORPAY_WEBHOOK_SECRET env = Some []
           \<or> signature req = None \<or> signature req = Some []"
  shows "webhook_cjs rt env now req db =
           (Response 400 (Text ''Missing signature or webhook secret''), db)"
  using assms by (auto simp: webhook_cjs_def Let_def js_not_of_string_option)

text \<open>
  What the handler does when it is entered with the Buffer of the body's bytes, as its
  header comment has it. A signature that is not the hex digest of the bytes: 400, and
  nothing else happens.
\<close>

lemma webhook_cjs_mismatch:
  assumes "RAZORPAY_WEBHOOK_SECRET env = Some k" and "k \<noteq> []"
    and "signature req = Some s" and "s \<noteq> []" and "body req = Buffer raw"
    and "s \<noteq> digest_hex (hmac_sha256 rt k raw)"
  shows "webhook_cjs rt env now req db = (Response 400 (Text ''Invalid signature''), db)"
  using assms by (simp add: webhook_cjs_def Let_def js_not_def createHmac_def)

text \<open>The signature is the digest of the bytes, and the bytes parse to an event other
  than \<^verbatim>\<open>null\<close>: the handler does the insert and nothing else.\<close>

lemma webhook_cjs_verified:
  assumes "RAZORPAY_WEBHOOK_SECRET env = Some k" and "k \<noteq> []" and "body req = Buffer raw"
    and "hmac_sha256 rt k raw \<noteq> []"
    and "signature req = Some (digest_hex (hmac_sha256 rt k raw))"
    and "JSON_parse rt raw = Some event" and "\<not> nullish event"
  shows "webhook_cjs rt env now req db =
           (case pool_query rt db (payment_row_cjs event (js_or (payment_entity event) JNull) now) of
              Inl e \<Rightarrow> (webhook_error, db)
            | Inr db' \<Rightarrow> (webhook_ok, db'))"
  using assms digest_hex_nonempty [of "hmac_sha256 rt k raw"]
  by (simp add: webhook_cjs_def Let_def js_not_def createHmac_def member_def payment_entity_def)

text \<open>The bytes are \<^verbatim>\<open>null\<close>, correctly signed: \<^verbatim>\<open>event.payload\<close> throws, and the
  answer is 500.\<close>

lemma webhook_cjs_null_event:
  assumes "RAZORPAY_WEBHOOK_SECRET env = Some k" and "k \<noteq> []" and "body req = Buffer raw"
    and "hmac_sha256 rt k raw \<noteq> []"
    and "signature req = Some (digest_hex (hmac_sha256 rt k raw))"
    and "JSON_parse rt raw = Some event" and "nullish event"
  shows "webhook_cjs rt env now req db = (Response 500 (Text ''Webhook error''), db)"
  using assms digest_hex_nonempty [of "hmac_sha256 rt k raw"]
  by (simp add: webhook_cjs_def Let_def js_not_def createHmac_def member_def webhook_error_def)

text \<open>
  With a secret and a signature header, the handler answers 400 exactly when the header
  is not the hex digest of the bytes, and then the table is as it was. (The digest of
  HMAC-SHA256 has 32 bytes.)
\<close>

lemma webhook_cjs_signature_check:
  assumes k: "RAZORPAY_WEBHOOK_SECRET env = Some k" "k \<noteq> []"
    and s: "signature req = Some s" and raw: "body req = Buffer raw"
    and len: "length (hmac_sha256 rt k raw) = 32"
  shows "(status_code (fst (webhook_cjs rt env now req db)) = 400)
           = (s \<noteq> digest_hex (hmac_sha256 rt k raw))"
    and "s \<noteq> digest_hex (hmac_sha256 rt k raw) \<Longrightarrow> snd (webhook_cjs rt env now req db) = db"
proof -
  from len have ne: "digest_hex (hmac_sha256 rt k raw) \<noteq> []"
    by (intro digest_hex_nonempty) auto
  show "(status_code (fst (webhook_cjs rt env now req db)) = 400)
          = (s \<noteq> digest_hex (hmac_sha256 rt k raw))"
  proof (cases "s = digest_hex (hmac_sha256 rt k raw)")
    case True
    with k s raw ne show ?thesis
      by (auto simp: webhook_cjs_def Let_def js_not_def createHmac_def webhook_error_def
          webhook_ok_def split: option.splits sum.splits)
  next
    case False
    show ?thesis
    proof (cases "s = []")
      case True
      with s False show ?thesis
        by (simp add: webhook_cjs_missing)
    next
      case nonempty: False
      with k s raw False show ?thesis
        by (simp add: webhook_cjs_mismatch)
    qed
  qed
  show "snd (webhook_cjs rt env now req db) = db" if "s \<noteq> digest_hex (hmac_sha256 rt k raw)"
  proof (cases "s = []")
    case True
    with s show ?thesis
      by (simp add: webhook_cjs_missing)
  next
    case False
    with k s raw that show ?thesis
      by (simp add: webhook_cjs_mismatch)
  qed
qed

text \<open>Entered with the Buffer, the handler parses only what it has verified, and answers
  what does not parse with 500, the table as it was.\<close>

lemma webhook_cjs_unparseable:
  assumes "RAZORPAY_WEBHOOK_SECRET env = Some k" and "k \<noteq> []" and "body req = Buffer raw"
    and "hmac_sha256 rt k raw \<noteq> []"
    and "signature req = Some (digest_hex (hmac_sha256 rt k raw))"
    and "JSON_parse rt raw = None"
  shows "webhook_cjs rt env now req db = (Response 500 (Text ''Webhook error''), db)"
  using assms digest_hex_nonempty [of "hmac_sha256 rt k raw"]
  by (simp add: webhook_cjs_def Let_def js_not_def createHmac_def webhook_error_def)

lemma webhook_cjs_parse_unused:
  assumes "status_code (fst (webhook_cjs rt env now req db)) = 400"
  shows "webhook_cjs (rt\<lparr>JSON_parse := parse\<rparr>) env now req db = webhook_cjs rt env now req db"
  using assms
  by (auto simp: webhook_cjs_def Let_def createHmac_def webhook_error_def webhook_ok_def
      split: option.splits sum.splits if_splits)

text \<open>The fallbacks of the CommonJS row.\<close>

lemma payment_row_cjs_fallbacks:
  "event_id (payment_row_cjs event pe now) = get_prop event ''id''"
  "status (payment_row_cjs event pe now) =
     (if truthy (opt_member pe ''status'') then opt_member pe ''status''
      else if truthy (get_prop event ''event'') then get_prop event ''event''
      else JStr ''unknown'')"
  "amount (payment_row_cjs event pe now) =
     (if truthy (opt_member pe ''amount'') then opt_member pe ''amount'' else JNum (Fin 0))"
  "currency (payment_row_cjs event pe now) =
     (if truthy (opt_member pe ''currency'') then opt_member pe ''currency'' else JStr ''INR'')"
  "email (payment_row_cjs event pe now) =
     (if truthy (opt_member pe ''email'') then opt_member pe ''email'' else JNull)"
  "contact (payment_row_cjs event pe now) =
     (if truthy (opt_member pe ''contact'') then opt_member pe ''contact'' else JNull)"
  by (simp_all add: payment_row_cjs_def js_or_def)

text \<open>Entered with the Buffer of a correctly signed event without payment entity, and the
  database accepting the row: success, and the conditional insert of the row of
  fallback values.\<close>

lemma webhook_cjs_buffer_without_entity:
  assumes "RAZORPAY_WEBHOOK_SECRET env = Some k" and "k \<noteq> []" and "body req = Buffer raw"
    and "hmac_sha256 rt k raw \<noteq> []"
    and "signature req = Some (digest_hex (hmac_sha256 rt k raw))"
    and "JSON_parse rt raw = Some event" and "\<not> nullish event"
    and "js_not (payment_entity event)"
    and "\<not> query_fails rt db (fallback_row event now)"
  shows "webhook_cjs rt env now req db =
           (webhook_ok,
            if conflict rt db (fallback_row event now) then db
            else db @ [fallback_row event now])"
proof -
  from assms(8) have "js_or (payment_entity event) JNull = JNull"
    by (simp add: js_or_def js_not_def)
  moreover have "payment_row_cjs event JNull now = fallback_row event now"
    by (simp add: payment_row_cjs_def fallback_row_def opt_member_def js_or_def)
  ultimately show ?thesis
    using webhook_cjs_verified [OF assms(1-7), of now db] assms(9)
    by (simp add: pool_query_def)
qed

subsection \<open>The CommonJS handler as it is mounted\<close>

text \<open>Entered with a parsed value that is no string, a secret and a signature header, the
  handler answers 500: \<^verbatim>\<open>update\<close> throws.\<close>

lemma webhook_cjs_parsed_body:
  assumes "RAZORPAY_WEBHOOK_SECRET env = Some k" and "k \<noteq> []"
    and "signature req = Some s" and "s \<noteq> []"
    and "body req = Parsed v" and "\<forall>t. v \<noteq> JStr t"
  shows "webhook_cjs rt env now req db = (Response 500 (Text ''Webhook error''), db)"
  using assms
  by (cases v) (simp_all add: webhook_cjs_def Let_def js_not_def createHmac_def webhook_error_def)

text \<open>So a request with a signature header whose body the JSON parser accepts (an object
  or an array: the parser is strict) is answered 500 by the server with a secret, whether
  or not the signature is right.\<close>

lemma route_webhook_cjs_signed:
  assumes "RAZORPAY_WEBHOOK_SECRET env = Some k" and "k \<noteq> []" and "s \<noteq> []"
    and "body_parser_json rt raw = Some v" and "\<forall>t. v \<noteq> JStr t"
  shows "route_webhook_cjs rt env now (Some s) raw db =
           (Response 500 (Text ''Webhook error''), db)"
  using assms
  by (simp add: route_webhook_cjs_def webhook_cjs_parsed_body [where k = k and s = s and v = v])

text \<open>Whatever the request, the CommonJS server as mounted answers 400 or 500 and leaves
  the table as it was.\<close>

lemma route_webhook_cjs_stores_nothing:
  assumes "\<forall>t. JSON_parse rt raw \<noteq> Some (JStr t)"
  shows "snd (route_webhook_cjs rt env now sig raw db) = db"
    and "status_code (fst (route_webhook_cjs rt env now sig raw db)) \<in> {400, 500}"
proof -
  have "route_webhook_cjs rt env now sig raw db = (Response 400 ErrorPage, db)
      \<or> route_webhook_cjs rt env now sig raw db =
          (Response 400 (Text ''Missing signature or webhook secret''), db)
      \<or> route_webhook_cjs rt env now sig raw db = (Response 500 (Text ''Webhook error''), db)"
  proof (cases "body_parser_json rt raw")
    case None
    then show ?thesis
      by (simp add: route_webhook_cjs_def)
  next
    case (Some v)
    with assms have v: "\<forall>t. v \<noteq> JStr t"
      by (auto simp: body_parser_json_def split: if_splits)
    show ?thesis
    proof (cases "RAZORPAY_WEBHOOK_SECRET env = None \<or> RAZORPAY_WEBHOOK_SECRET env = Some []
                  \<or> sig = None \<or> sig = Some []")
      case True
      then show ?thesis
        using Some by (simp add: route_webhook_cjs_def webhook_cjs_missing)
    next
      case False
      then obtain k s where "RAZORPAY_WEBHOOK_SECRET env = Some k" "k \<noteq> []"
        "sig = Some s" "s \<noteq> []"
        by auto
      with Some v show ?thesis
        by (simp add: route_webhook_cjs_signed)
    qed
  qed
  then show "snd (route_webhook_cjs rt env now sig raw db) = db"
    and "status_code (fst (route_webhook_cjs rt env now sig raw db)) \<in> {400, 500}"
    by auto
qed

subsection \<open>The ES-module handler\<close>

lemma webhook_esm_verified:
  assumes "verified_event_esm rt env req = Some event"
  shows "webhook_esm rt env now req db =
           (case pool_query rt db (payment_row_esm event (payment_entity event) now) of
              Inl e \<Rightarrow> (webhook_error, db)
            | Inr db' \<Rightarrow> (webhook_ok, db'))"
  using assms
  by (auto simp: verified_event_esm_def webhook_esm_def Let_def
      createHmac_def member_def payment_entity_def
      split: option.splits if_splits)

section \<open>The insert\<close>

lemma pool_query_accepts:
  "\<not> query_fails rt db p \<Longrightarrow>
     pool_query rt db p = Inr (if conflict rt db p then db else db @ [p])"
  by (simp add: pool_query_def)

lemma rows_for_conflict:
  "sql_param rt (event_id p) = Some k \<Longrightarrow> conflict rt db p = (0 < rows_for rt db k)"
  by (auto simp: conflict_def rows_for_def filter_empty_conv image_iff) metis+

lemma unique_ids_rows_le:
  "unique_ids rt db \<Longrightarrow> rows_for rt db k \<le> 1"
proof (induction db)
  case Nil
  then show ?case by (simp add: rows_for_def)
next
  case (Cons p db)
  then have "unique_ids rt db"
    by (auto simp: unique_ids_def split: if_splits)
  with Cons have ih: "rows_for rt db k \<le> 1"
    by simp
  show ?case
  proof (cases "sql_param rt (event_id p) = Some k")
    case True
    with Cons.prems have "Some k \<notin> set (map (\<lambda>q. sql_param rt (event_id q)) db)"
      by (auto simp: unique_ids_def)
    then have "rows_for rt db k = 0"
      by (force simp: rows_for_def filter_empty_conv image_iff)
    with True show ?thesis
      by (simp add: rows_for_def)
  next
    case False
    with ih show ?thesis
      by (simp add: rows_for_def)
  qed
qed

text \<open>One accepted insert of a row with a given id leaves exactly one row of that id.\<close>

lemma insert_rows_for:
  assumes "unique_ids rt db" and "sql_param rt (event_id p) = Some k"
  shows "rows_for rt (if conflict rt db p then db else db @ [p]) k = 1"
proof (cases "conflict rt db p")
  case True
  with assms have "0 < rows_for rt db k"
    by (simp add: rows_for_conflict)
  moreover from assms(1) have "rows_for rt db k \<le> 1"
    by (rule unique_ids_rows_le)
  ultimately show ?thesis
    using True by simp
next
  case False
  with assms have "rows_for rt db k = 0"
    by (simp add: rows_for_conflict)
  with False assms show ?thesis
    by (simp add: rows_for_def)
qed

lemma insert_unique_ids:
  assumes "unique_ids rt db"
  shows "unique_ids rt (if conflict rt db p then db else db @ [p])"
  using assms by (auto simp: unique_ids_def conflict_def split: option.splits)

text \<open>
  A handler that, on each of the deliveries, answers with success and does nothing but the
  conditional insert of a row with the id \<open>k\<close>: once a row of that id is there, every
  further delivery changes nothing.
\<close>

lemma deliver_noop:
  assumes h: "\<And>t rq db. (t, rq) \<in> set ds \<Longrightarrow>
                \<exists>p. sql_param rt (event_id p) = Some k \<and>
                  h t rq db = (webhook_ok, if conflict rt db p then db else db @ [p])"
    and one: "0 < rows_for rt db k"
  shows "deliver h ds db = (replicate (length ds) webhook_ok, db)"
  using h
proof (induction ds)
  case Nil
  show ?case by simp
next
  case (Cons d ds)
  obtain t rq where d: "d = (t, rq)"
    by (cases d)
  from Cons.prems [of t rq db] d obtain p where p: "sql_param rt (event_id p) = Some k"
    and step: "h t rq db = (webhook_ok, if conflict rt db p then db else db @ [p])"
    by auto
  from p one have "conflict rt db p"
    by (simp add: rows_for_conflict)
  with step have "h t rq db = (webhook_ok, db)"
    by simp
  moreover have "deliver h ds db = (replicate (length ds) webhook_ok, db)"
    by (rule Cons.IH) (use Cons.prems in auto)
  ultimately show ?case
    using d by simp
qed

lemma deliver_idempotent:
  assumes h: "\<And>t rq db. (t, rq) \<in> set ds \<Longrightarrow>
                \<exists>p. sql_param rt (event_id p) = Some k \<and>
                  h t rq db = (webhook_ok, if conflict rt db p then db else db @ [p])"
    and uniq: "unique_ids rt db" and ne: "ds \<noteq> []"
  shows "fst (deliver h ds db) = replicate (length ds) webhook_ok
       \<and> rows_for rt (snd (deliver h ds db)) k = 1
       \<and> unique_ids rt (snd (deliver h ds db))
       \<and> snd (deliver h ds db) = snd (deliver h (take 1 ds) db)"
proof -
  from ne obtain t rq ds' where ds: "ds = (t, rq) # ds'"
    by (cases ds) auto
  from h [of t rq db] ds obtain p where p: "sql_param rt (event_id p) = Some k"
    and step: "h t rq db = (webhook_ok, if conflict rt db p then db else db @ [p])"
    by auto
  define db1 where "db1 = (if conflict rt db p then db else db @ [p])"
  from step have first: "h t rq db = (webhook_ok, db1)"
    by (simp add: db1_def)
  from uniq p have one: "rows_for rt db1 k = 1"
    unfolding db1_def by (rule insert_rows_for)
  from uniq have uniq1: "unique_ids rt db1"
    unfolding db1_def by (rule insert_unique_ids)
  have rest: "deliver h ds' db1 = (replicate (length ds') webhook_ok, db1)"
  proof (rule deliver_noop [where k = k and rt = rt])
    show "\<exists>p. sql_param rt (event_id p) = Some k \<and>
            h t' rq' db' = (webhook_ok, if conflict rt db' p then db' else db' @ [p])"
      if "(t', rq') \<in> set ds'" for t' rq' db'
      using h [of t' rq' db'] that ds by simp
    show "0 < rows_for rt db1 k" using one by simp
  qed
  from first rest one uniq1 show ?thesis
    by (simp add: ds)
qed

text \<open>
  The ES-module handler is idempotent: from a table that satisfies its uniqueness
  constraint, any deliveries, one at least, of verified events that have the same id,
  whose rows the database accepts, are all answered with success; one row has the id
  afterwards, and the table is what the first delivery alone made it.
\<close>

lemma webhook_esm_idempotent:
  assumes uniq: "unique_ids rt db" and ne: "es \<noteq> []"
    and es: "\<And>t rq. (t, rq) \<in> set es \<Longrightarrow>
               \<exists>event. verified_event_esm rt env rq = Some event
                 \<and> sql_param rt (get_prop event ''id'') = Some k
                 \<and> (\<forall>db'. \<not> query_fails rt db' (payment_row_esm event (payment_entity event) t))"
  shows "fst (deliver (webhook_esm rt env) es db) = replicate (length es) webhook_ok
       \<and> rows_for rt (snd (deliver (webhook_esm rt env) es db)) k = 1
       \<and> snd (deliver (webhook_esm rt env) es db) = snd (deliver (webhook_esm rt env) (take 1 es) db)"
proof -
  have esm: "\<exists>p. sql_param rt (event_id p) = Some k \<and>
               webhook_esm rt env t rq db' =
                 (webhook_ok, if conflict rt db' p then db' else db' @ [p])"
    if "(t, rq) \<in> set es" for t rq db'
  proof -
    from es [OF that] obtain event where v: "verified_event_esm rt env rq = Some event"
      and k: "sql_param rt (get_prop event ''id'') = Some k"
      and up: "\<not> query_fails rt db' (payment_row_esm event (payment_entity event) t)"
      by blast
    from k have "sql_param rt (event_id (payment_row_esm event (payment_entity event) t)) = Some k"
      by (simp add: payment_row_esm_def)
    moreover from v up have "webhook_esm rt env t rq db' =
        (webhook_ok,
         if conflict rt db' (payment_row_esm event (payment_entity event) t) then db'
         else db' @ [payment_row_esm event (payment_entity event) t])"
      by (simp add: webhook_esm_verified pool_query_def)
    ultimately show ?thesis
      by blast
  qed
  from deliver_idempotent [of es rt k "webhook_esm rt env" db, OF esm uniq ne]
  show ?thesis
    by blast
qed

section \<open>The runtime of the evaluations\<close>

lemmas demo_bodies = body_captured_def body_spaced_def body_compact_def body_event_only_def
  body_malformed_def

lemmas demo_events = event_captured_def event_id_only_def event_event_only_def

lemma demo_digest_captured:
  "digest_hex (hmac_sha256 demo_rt demo_secret body_captured) =
     ''a6ecfadac966cff1b84be443d6be3693f488414235231af6abb5cf1533f8df35''"
  by (simp add: demo_rt_def demo_digests_def digest_hex_def hex_byte_def)

lemma demo_digest_spaced:
  "digest_hex (hmac_sha256 demo_rt demo_secret body_spaced) =
     ''99972293fb04bf9ad46d455de4b268b3987bb783a85d972c325c4111dda53b5a''"
  by (simp add: demo_rt_def demo_digests_def digest_hex_def hex_byte_def demo_bodies)

lemma demo_digest_compact:
  "digest_hex (hmac_sha256 demo_rt demo_secret body_compact) =
     ''bd07d74827538976f54e8bccfb0285fee07914d6283b2ac30743d30e1f0254e7''"
  by (simp add: demo_rt_def demo_digests_def digest_hex_def hex_byte_def demo_bodies)

lemma demo_digest_event_only:
  "digest_hex (hmac_sha256 demo_rt demo_secret body_event_only) =
     ''2a3396d0a17b47a1053841fdf6b96194d8b699eb346eaeb15afd8f0b293348ec''"
  by (simp add: demo_rt_def demo_digests_def digest_hex_def hex_byte_def demo_bodies)

lemma demo_digest_malformed:
  "digest_hex (hmac_sha256 demo_rt demo_secret body_malformed) =
     ''c2b19a94e05b6c59d148c6112f772b9b1d47f4a472498b8bccd27bf9b9a0738d''"
  by (simp add: demo_rt_def demo_digests_def digest_hex_def hex_byte_def demo_bodies)

lemma demo_digest_nonempty:
  "hmac_sha256 demo_rt demo_secret body_spaced \<noteq> []"
  "hmac_sha256 demo_rt demo_secret body_event_only \<noteq> []"
  "hmac_sha256 demo_rt demo_secret body_malformed \<noteq> []"
  by (simp_all add: demo_rt_def demo_digests_def demo_bodies)

lemma demo_parse:
  "JSON_parse demo_rt body_captured = Some event_captured"
  "JSON_parse demo_rt body_spaced = Some event_id_only"
  "JSON_parse demo_rt body_compact = Some event_id_only"
  "JSON_parse demo_rt body_event_only = Some event_event_only"
  "JSON_parse demo_rt body_malformed = None"
  by (simp_all add: demo_rt_def demo_parses_def demo_bodies)

lemma demo_stringify:
  "JSON_stringify demo_rt event_captured = Some body_captured"
  "JSON_stringify demo_rt event_id_only = Some body_compact"
  "JSON_stringify demo_rt event_event_only = Some body_event_only"
  by (simp_all add: demo_rt_def demo_texts_def demo_events)

lemma demo_body_parser:
  "body_parser_json demo_rt body_captured = Some event_captured"
  "body_parser_json demo_rt body_spaced = Some event_id_only"
  "body_parser_json demo_rt body_event_only = Some event_event_only"
  "body_parser_json demo_rt body_malformed = None"
  by (simp_all add: body_parser_json_def demo_parse)
     (simp_all add: json_strict_def demo_bodies)

lemma demo_store_up: "\<not> query_fails demo_rt db p"
  by (simp add: demo_rt_def)

lemma demo_secret_nonempty: "demo_secret \<noteq> []"
  by (simp add: demo_secret_def)

section \<open>The claims about the webhook\<close>

text \<open>
  C1 (with secret and signature there, the handler takes HMAC-SHA256 of the exact raw
  bytes of the body, hex-encodes it, accepts the request iff the digest equals the
  signature, and on a mismatch answers 400 and stores nothing). The CommonJS handler is
  written to do so, for the Buffer its header comment speaks of
  (\<open>webhook_cjs_signature_check\<close>). The ES-module handler takes the digest of
  \<^verbatim>\<open>JSON.stringify(req.body)\<close>, the parsed body written out again: the body
  \<^verbatim>\<open>{"id": "evt_2"}\<close>, signed over its 15 bytes, is written out as \<^verbatim>\<open>{"id":"evt_2"}\<close>,
  whose digest is another, and the request is refused with 400 although its signature
  is the digest of its bytes.
\<close>

theorem webhook_esm_refuses_signed_bytes:
  "digest_hex (hmac_sha256 demo_rt demo_secret body_spaced) =
     ''99972293fb04bf9ad46d455de4b268b3987bb783a85d972c325c4111dda53b5a''
   \<and> route_webhook_esm demo_rt demo_env now
         (Some ''99972293fb04bf9ad46d455de4b268b3987bb783a85d972c325c4111dda53b5a'')
         body_spaced db
       = (Response 400 (Text ''Invalid signature''), db)"
  by (simp add: demo_digest_spaced route_webhook_esm_def demo_body_parser webhook_esm_def
      demo_env_def createHmac_def demo_stringify demo_digest_compact Let_def)

text \<open>Entered with the Buffer of these bytes, the CommonJS handler accepts the request.
  The CommonJS server does not: it enters the handler with the parsed body, and the
  answer is 500.\<close>

lemma webhook_cjs_accepts_signed_bytes:
  "webhook_cjs demo_rt demo_env now
     \<lparr>signature = Some ''99972293fb04bf9ad46d455de4b268b3987bb783a85d972c325c4111dda53b5a'',
      body = Buffer body_spaced\<rparr> []
   = (webhook_ok,
      [\<lparr>event_id = JStr ''evt_2'', status = JStr ''unknown'', amount = JNum (Fin 0),
        currency = JStr ''INR'', email = JNull, contact = JNull, created_at = now\<rparr>])"
proof -
  have "webhook_cjs demo_rt demo_env now
     \<lparr>signature = Some ''99972293fb04bf9ad46d455de4b268b3987bb783a85d972c325c4111dda53b5a'',
      body = Buffer body_spaced\<rparr> []
   = (case pool_query demo_rt []
             (payment_row_cjs event_id_only (js_or (payment_entity event_id_only) JNull) now) of
        Inl e \<Rightarrow> (webhook_error, [])
      | Inr db' \<Rightarrow> (webhook_ok, db'))"
    by (rule webhook_cjs_verified [where k = demo_secret and raw = body_spaced])
       (simp_all add: demo_env_def demo_secret_nonempty demo_digest_nonempty demo_digest_spaced
         demo_parse event_id_only_def)
  then show ?thesis
    by (simp add: pool_query_accepts demo_store_up)
       (simp add: payment_row_cjs_def payment_entity_def event_id_only_def js_or_def
         opt_member_def conflict_def sql_param_def)
qed

lemma route_webhook_cjs_signed_bytes:
  "route_webhook_cjs demo_rt demo_env now
     (Some ''99972293fb04bf9ad46d455de4b268b3987bb783a85d972c325c4111dda53b5a'')
     body_spaced db
   = (Response 500 (Text ''Webhook error''), db)"
  by (rule route_webhook_cjs_signed [where k = demo_secret and v = event_id_only])
     (simp_all add: demo_env_def demo_secret_nonempty demo_body_parser event_id_only_def)

text \<open>
  C3 (when the secret is not configured or the signature header is absent, the request
  fails with 400 and the store is not touched). The CommonJS handler does so
  (\<open>webhook_cjs_missing\<close>), and so does the ES-module handler for an absent header. But
  the ES-module handler does not test the secret: with none configured,
  \<^verbatim>\<open>crypto.createHmac("sha256", undefined)\<close> throws, and every request is answered 500
  (the store untouched).
\<close>

theorem webhook_esm_without_secret:
  "webhook_esm rt \<lparr>RAZORPAY_WEBHOOK_SECRET = None\<rparr> now req db =
     (Response 500 (Text ''Webhook error''), db)"
  by (simp add: webhook_esm_def createHmac_def webhook_error_def Let_def)

lemma webhook_esm_without_signature:
  assumes "RAZORPAY_WEBHOOK_SECRET env = Some k" and "JSON_stringify rt (body req) = Some data"
    and "signature req = None"
  shows "webhook_esm rt env now req db = (Response 400 (Text ''Invalid signature''), db)"
  using assms by (simp add: webhook_esm_def createHmac_def Let_def)

text \<open>
  C4 (the stored record's fallbacks: status falls back to the top-level event-type field
  and then to \<^verbatim>\<open>"unknown"\<close>, amount to 0, currency to \<^verbatim>\<open>"INR"\<close>, email and contact to
  null). The row the CommonJS handler builds has these fallbacks
  (\<open>payment_row_cjs_fallbacks\<close>). The ES-module handler's status falls back to the
  literal \<^verbatim>\<open>"created"\<close> and never to the event type: the correctly signed event
  \<^verbatim>\<open>{"id":"evt_3","event":"payment.captured"}\<close> is stored with the status
  \<^verbatim>\<open>"created"\<close>.
\<close>

theorem webhook_esm_status_fallback:
  "route_webhook_esm demo_rt demo_env now
     (Some ''2a3396d0a17b47a1053841fdf6b96194d8b699eb346eaeb15afd8f0b293348ec'')
     body_event_only []
   = (Response 200 (Json (JObj [(''status'', JStr ''ok'')])),
      [\<lparr>event_id = JStr ''evt_3'', status = JStr ''created'', amount = JNum (Fin 0),
        currency = JStr ''INR'', email = JNull, contact = JNull, created_at = now\<rparr>])"
proof -
  have "verified_event_esm demo_rt demo_env
          \<lparr>signature = Some ''2a3396d0a17b47a1053841fdf6b96194d8b699eb346eaeb15afd8f0b293348ec'',
           body = event_event_only\<rparr> = Some event_event_only"
    by (simp add: verified_event_esm_def demo_env_def demo_stringify demo_digest_event_only)
       (simp add: event_event_only_def)
  then show ?thesis
    by (simp add: route_webhook_esm_def demo_body_parser webhook_esm_verified pool_query_accepts
        demo_store_up webhook_ok_def)
       (simp add: payment_row_esm_def payment_entity_def event_event_only_def js_or_def
         opt_member_def conflict_def sql_param_def)
qed

text \<open>
  C7 (the body is parsed only after the signature has been verified, and a body that
  does not parse after a successful verification is answered 500 with no row inserted).
  The CommonJS handler is written to do so, for the Buffer its header comment speaks of
  (\<open>webhook_cjs_parse_unused\<close>, \<open>webhook_cjs_unparseable\<close>). In the ES-module server the
  body is parsed by \<^verbatim>\<open>bodyParser.json()\<close> before the handler is entered, whatever the
  signature: the body \<^verbatim>\<open>{"id":\<close>, correctly signed, is answered by the parser with 400,
  and the handler, its verification and its 500 are never reached.
\<close>

theorem route_webhook_esm_parses_first:
  "digest_hex (hmac_sha256 demo_rt demo_secret body_malformed) =
     ''c2b19a94e05b6c59d148c6112f772b9b1d47f4a472498b8bccd27bf9b9a0738d''
   \<and> JSON_parse demo_rt body_malformed = None
   \<and> route_webhook_esm demo_rt demo_env now
         (Some ''c2b19a94e05b6c59d148c6112f772b9b1d47f4a472498b8bccd27bf9b9a0738d'')
         body_malformed db
       = (Response 400 ErrorPage, db)"
  by (simp add: demo_digest_malformed demo_parse route_webhook_esm_def demo_body_parser)

text \<open>Entered with the Buffer of these bytes, the CommonJS handler answers 500. In the
  CommonJS server \<^verbatim>\<open>express.json()\<close> has the same place as the parser of the ES-module
  server, and the answer is the same 400.\<close>

lemma webhook_cjs_malformed:
  "webhook_cjs demo_rt demo_env now
     \<lparr>signature = Some ''c2b19a94e05b6c59d148c6112f772b9b1d47f4a472498b8bccd27bf9b9a0738d'',
      body = Buffer body_malformed\<rparr> db
   = (Response 500 (Text ''Webhook error''), db)"
  by (rule webhook_cjs_unparseable [where k = demo_secret and raw = body_malformed])
     (simp_all add: demo_env_def demo_secret_nonempty demo_digest_nonempty
       demo_digest_malformed demo_parse)

lemma route_webhook_cjs_malformed:
  "route_webhook_cjs demo_rt demo_env now
     (Some ''c2b19a94e05b6c59d148c6112f772b9b1d47f4a472498b8bccd27bf9b9a0738d'')
     body_malformed db
   = (Response 400 ErrorPage, db)"
  by (simp add: route_webhook_cjs_def demo_body_parser)

text \<open>
  C8 (frame condition: the only state a processed webhook request changes is the table
  \<^verbatim>\<open>payments\<close>, by one conditional insert; no row is created otherwise, updated or
  deleted). Whatever the request, either handler leaves the table as it was or,
  answering with success, adds one row at its end, which conflicts with none that was
  there.
\<close>

theorem webhook_frame:
  "(snd (webhook_cjs rt env now req db) = db
    \<or> fst (webhook_cjs rt env now req db) = webhook_ok
      \<and> (\<exists>p. snd (webhook_cjs rt env now req db) = db @ [p] \<and> \<not> conflict rt db p))
   \<and> (snd (webhook_esm rt env now req' db) = db
    \<or> fst (webhook_esm rt env now req' db) = webhook_ok
      \<and> (\<exists>p. snd (webhook_esm rt env now req' db) = db @ [p] \<and> \<not> conflict rt db p))"
proof
  show "snd (webhook_cjs rt env now req db) = db
    \<or> fst (webhook_cjs rt env now req db) = webhook_ok
      \<and> (\<exists>p. snd (webhook_cjs rt env now req db) = db @ [p] \<and> \<not> conflict rt db p)"
    by (auto simp: webhook_cjs_def Let_def pool_query_def
        split: option.splits sum.splits if_splits)
  show "snd (webhook_esm rt env now req' db) = db
    \<or> fst (webhook_esm rt env now req' db) = webhook_ok
      \<and> (\<exists>p. snd (webhook_esm rt env now req' db) = db @ [p] \<and> \<not> conflict rt db p)"
    by (auto simp: webhook_esm_def Let_def pool_query_def
        split: option.splits sum.splits if_splits)
qed

text \<open>
  C10 (a correctly signed, parseable body without any \<^verbatim>\<open>payload.payment.entity\<close> is
  still answered 200 \<^verbatim>\<open>{"status":"ok"}\<close>, and a row keyed on the top-level id is
  inserted whose other fields are the fallbacks: the status from the event field or
  \<^verbatim>\<open>"unknown"\<close>, amount 0, currency \<^verbatim>\<open>"INR"\<close>, email and contact null). The CommonJS
  handler is written to do so, for the Buffer its header comment speaks of and an event
  other than \<^verbatim>\<open>null\<close> (\<open>webhook_cjs_buffer_without_entity\<close>, \<open>webhook_cjs_null_event\<close>).
  But \<^verbatim>\<open>express.json()\<close>, mounted before the route's raw parser, has read and parsed the
  body when the handler is entered: the handler passes the parsed object to \<^verbatim>\<open>update\<close>,
  which throws. The correctly signed body \<^verbatim>\<open>{"id":"evt_3","event":"payment.captured"}\<close>
  is answered 500, and no row is stored.
\<close>

theorem route_webhook_cjs_without_entity:
  "digest_hex (hmac_sha256 demo_rt demo_secret body_event_only) =
     ''2a3396d0a17b47a1053841fdf6b96194d8b699eb346eaeb15afd8f0b293348ec''
   \<and> JSON_parse demo_rt body_event_only = Some event_event_only
   \<and> route_webhook_cjs demo_rt demo_env now
         (Some ''2a3396d0a17b47a1053841fdf6b96194d8b699eb346eaeb15afd8f0b293348ec'')
         body_event_only db
       = (Response 500 (Text ''Webhook error''), db)"
proof -
  have "route_webhook_cjs demo_rt demo_env now
         (Some ''2a3396d0a17b47a1053841fdf6b96194d8b699eb346eaeb15afd8f0b293348ec'')
         body_event_only db
       = (Response 500 (Text ''Webhook error''), db)"
    by (rule route_webhook_cjs_signed [where k = demo_secret and v = event_event_only])
       (simp_all add: demo_env_def demo_secret_nonempty demo_body_parser event_event_only_def)
  then show ?thesis
    by (simp add: demo_digest_event_only demo_parse)
qed

text \<open>Entered with the Buffer of these bytes, the handler stores the row of fallback
  values.\<close>

lemma webhook_cjs_buffer_event_only:
  "webhook_cjs demo_rt demo_env now
     \<lparr>signature = Some ''2a3396d0a17b47a1053841fdf6b96194d8b699eb346eaeb15afd8f0b293348ec'',
      body = Buffer body_event_only\<rparr> []
   = (webhook_ok,
      [\<lparr>event_id = JStr ''evt_3'', status = JStr ''payment.captured'', amount = JNum (Fin 0),
        currency = JStr ''INR'', email = JNull, contact = JNull, created_at = now\<rparr>])"
proof -
  have "webhook_cjs demo_rt demo_env now
     \<lparr>signature = Some ''2a3396d0a17b47a1053841fdf6b96194d8b699eb346eaeb15afd8f0b293348ec'',
      body = Buffer body_event_only\<rparr> []
   = (webhook_ok,
      if conflict demo_rt [] (fallback_row event_event_only now) then []
      else [] @ [fallback_row event_event_only now])"
    by (rule webhook_cjs_buffer_without_entity [where k = demo_secret and raw = body_event_only])
       (simp_all add: demo_env_def demo_secret_nonempty demo_digest_nonempty
         demo_digest_event_only demo_parse demo_store_up event_event_only_def js_not_def
         payment_entity_def opt_member_def)
  then show ?thesis
    by (simp add: conflict_def sql_param_def fallback_row_def event_event_only_def js_or_def)
qed

text \<open>
  C2 (idempotent persistence: delivering the same event id again creates no second row;
  after any number of deliveries there is exactly one row for it, the conflicting insert
  is a silent no-op, and the duplicate delivery is still answered with success). The
  ES-module handler does so (\<open>webhook_esm_idempotent\<close>), and the statement of the CommonJS
  handler is the same \<^verbatim>\<open>INSERT ... ON CONFLICT (event_id) DO NOTHING\<close>. But the CommonJS
  server never reaches it: \<^verbatim>\<open>express.json()\<close>, mounted before the route's raw parser, has
  read and parsed the body when the handler is entered, and \<^verbatim>\<open>update\<close> throws on the
  parsed object. The spec's scenario, the event \<^verbatim>\<open>evt_1\<close> with its right signature,
  delivered twice, is answered 500 both times, and there is no row for it afterwards.
\<close>

theorem route_webhook_cjs_duplicate_delivery:
  "digest_hex (hmac_sha256 demo_rt demo_secret body_captured) =
     ''a6ecfadac966cff1b84be443d6be3693f488414235231af6abb5cf1533f8df35''
   \<and> deliver (\<lambda>t (sig, raw). route_webhook_cjs demo_rt demo_env t sig raw)
       [(1, (Some ''a6ecfadac966cff1b84be443d6be3693f488414235231af6abb5cf1533f8df35'',
             body_captured)),
        (2, (Some ''a6ecfadac966cff1b84be443d6be3693f488414235231af6abb5cf1533f8df35'',
             body_captured))] db
     = ([Response 500 (Text ''Webhook error''), Response 500 (Text ''Webhook error'')], db)"
proof -
  have "route_webhook_cjs demo_rt demo_env t
         (Some ''a6ecfadac966cff1b84be443d6be3693f488414235231af6abb5cf1533f8df35'')
         body_captured db
       = (Response 500 (Text ''Webhook error''), db)" for t
    by (rule route_webhook_cjs_signed [where k = demo_secret and v = event_captured])
       (simp_all add: demo_env_def demo_secret_nonempty demo_body_parser event_captured_def)
  then show ?thesis
    by (simp add: demo_digest_captured)
qed

text \<open>The same two deliveries to the ES-module server: success both times, and the one
  row of the spec's scenario.\<close>

lemma route_webhook_esm_duplicate_delivery:
  "deliver (\<lambda>t (sig, raw). route_webhook_esm demo_rt demo_env t sig raw)
       [(1, (Some ''a6ecfadac966cff1b84be443d6be3693f488414235231af6abb5cf1533f8df35'',
             body_captured)),
        (2, (Some ''a6ecfadac966cff1b84be443d6be3693f488414235231af6abb5cf1533f8df35'',
             body_captured))] []
     = ([webhook_ok, webhook_ok],
        [\<lparr>event_id = JStr ''evt_1'', status = JStr ''captured'', amount = JNum (Fin 50000),
          currency = JStr ''INR'', email = JStr ''a@b.com'', contact = JStr ''+911234567890'',
          created_at = 1\<rparr>])"
proof -
  have v: "verified_event_esm demo_rt demo_env
          \<lparr>signature = Some ''a6ecfadac966cff1b84be443d6be3693f488414235231af6abb5cf1533f8df35'',
           body = event_captured\<rparr> = Some event_captured"
    by (simp add: verified_event_esm_def demo_env_def demo_stringify demo_digest_captured)
       (simp add: event_captured_def)
  have row: "payment_row_esm event_captured (payment_entity event_captured) t =
      \<lparr>event_id = JStr ''evt_1'', status = JStr ''captured'', amount = JNum (Fin 50000),
       currency = JStr ''INR'', email = JStr ''a@b.com'', contact = JStr ''+911234567890'',
       created_at = t\<rparr>" for t
    by (simp add: payment_row_esm_def payment_entity_def event_captured_def js_or_def
        opt_member_def)
  from v show ?thesis
    by (simp add: route_webhook_esm_def demo_body_parser webhook_esm_verified pool_query_accepts
        demo_store_up row conflict_def sql_param_def)
qed

end
